theory Spec2Isabelle
  imports Complex_Main
begin

text \<open>
  A model of the st_fast_rag backend and of the client functions of its frontend: the two
  tables and their CRUD operations (database.py, crud.py), the provider adapter
  (llm_abstraction.py), the prompt chain (rag_core.py), the routes of main.py with the
  streaming relay, and the error handling of frontend/utils.py. Exceptions are values, the
  store is passed in and returned, the clock of the store and the LLM provider are
  parameters, and a request's effects are listed in the order the program performs them.
\<close>

section \<open>Errors and responses\<close>

text \<open>
  The exceptions the backend can raise, as values. \<open>ValueError\<close> is what \<open>get_llm\<close> raises
  (llm_abstraction.py), \<open>IntegrityError\<close> is what the store raises at \<open>db.commit()\<close> when a
  column declared \<open>nullable=False\<close> would receive NULL, and \<open>RequestValidationError\<close> is
  raised by the framework when a request body does not fit the pydantic model of the route.
\<close>

datatype error =
    ValueError string
  | IntegrityError string
  | RequestValidationError string

fun str :: "error \<Rightarrow> string" where
  "str (ValueError msg) = msg"
| "str (IntegrityError msg) = msg"
| "str (RequestValidationError msg) = msg"

text \<open>
  What a route handler of main.py produces: a returned value, an \<open>HTTPException\<close> with its
  status code and detail, or an exception the handler does not catch.
\<close>

datatype 'a response =
    Returned 'a
  | HTTPException nat string
  | Unhandled error

text \<open>
  The status line the HTTP caller sees. The codes 200, 422 and 500 are the framework's
  defaults (main.py installs no exception handler of its own): a returned value is 200, a
  body that fails request validation is 422, any other uncaught exception is 500.
\<close>

fun status_code :: "'a response \<Rightarrow> nat" where
  "status_code (Returned v) = 200"
| "status_code (HTTPException code detail) = code"
| "status_code (Unhandled (RequestValidationError msg)) = 422"
| "status_code (Unhandled e) = 500"

section \<open>database.py and the schemas of crud.py\<close>

text \<open>
  \<open>ChatMessageBase\<close> (crud.py) has the five caller-supplied fields; \<open>ChatMessageCreate\<close> adds
  nothing. The ORM row \<open>ChatHistory\<close> (database.py) and the schema \<open>ChatMessageResponse\<close>
  both are these five fields plus the primary key and the timestamp, so one record extension
  stands for both. \<open>role\<close> is a plain \<open>str\<close> in the source, hence a \<open>string\<close> here. The
  primary key is named \<open>chat_id\<close> (\<open>id\<close> is HOL's identity function); timestamps are points
  of the store's clock (\<open>func.now()\<close>), counted as naturals.
\<close>

record ChatMessageBase =
  session_id :: string
  role :: string
  message :: string
  llm_provider :: string
  llm_model :: string

type_synonym ChatMessageCreate = ChatMessageBase

record ChatHistory = ChatMessageBase +
  chat_id :: int
  timestamp :: nat

text \<open>
  \<open>NoteBase\<close> (crud.py) has \<open>title\<close> and \<open>content\<close>; \<open>NoteCreate\<close> and \<open>NoteUpdate\<close> add
  nothing. The ORM row \<open>Note\<close> (database.py) has five text columns, all declared
  \<open>nullable=False\<close> and none with a default: \<open>title\<close>, \<open>url\<close>, \<open>content\<close>, \<open>comments\<close>,
  \<open>tags\<close>. A \<open>Note\<close> object is built from a \<open>NoteBase\<close> only, so \<open>title\<close> and \<open>content\<close> are
  always strings, while the other three attributes are \<open>None\<close> unless something sets them:
  they are options here. \<open>NoteResponse\<close> is \<open>NoteBase\<close> plus id and timestamp.
\<close>

record NoteBase =
  title :: string
  content :: string

type_synonym NoteCreate = NoteBase
type_synonym NoteUpdate = NoteBase

record Note = NoteBase +
  note_id :: int
  note_timestamp :: nat
  url :: "string option"
  comments :: "string option"
  tags :: "string option"

record NoteResponse = NoteBase +
  resp_id :: int
  resp_timestamp :: nat

text \<open>The two tables, \<open>chat_history\<close> and \<open>notes\<close>, in insertion (rowid) order.\<close>

record database =
  chat_history :: "ChatHistory list"
  notes_table :: "Note list"

definition empty_db :: database where
  "empty_db = \<lparr>chat_history = [], notes_table = []\<rparr>"

text \<open>
  \<open>Column(Integer, primary_key=True)\<close> on the SQLite engine that database.py configures
  (\<open>check_same_thread\<close> is an SQLite connect argument) is the rowid: a new row gets one more
  than the largest id in the table, and 1 in an empty table.
\<close>

definition next_id :: "int list \<Rightarrow> int" where
  "next_id ids = (if ids = [] then 1 else Max (set ids) + 1)"

text \<open>
  \<open>.offset(skip).limit(limit)\<close> as SQLite evaluates \<open>LIMIT limit OFFSET skip\<close>: a negative
  offset counts as zero, a negative limit is no limit.
\<close>

definition sql_offset :: "int \<Rightarrow> 'a list \<Rightarrow> 'a list" where
  "sql_offset skip rows = drop (nat skip) rows"

definition sql_limit :: "int \<Rightarrow> 'a list \<Rightarrow> 'a list" where
  "sql_limit limit rows = (if limit < 0 then rows else take (nat limit) rows)"

section \<open>crud.py\<close>

subsection \<open>Chat history\<close>

text \<open>
  \<open>create_chat_message\<close>: \<open>ChatHistory(**message.dict())\<close>, add, commit, refresh. The five
  NOT NULL columns all come from the schema, whose fields are required strings, so the commit
  has no constraint to fail on. \<open>now\<close> is the store's clock at the insert.
\<close>

definition create_chat_message ::
  "database \<Rightarrow> nat \<Rightarrow> ChatMessageCreate \<Rightarrow> ChatHistory \<times> database" where
  "create_chat_message db now m =
     (let db_message =
        \<lparr>session_id = session_id m, role = role m, message = message m,
         llm_provider = llm_provider m, llm_model = llm_model m,
         chat_id = next_id (map chat_id (chat_history db)), timestamp = now\<rparr>
      in (db_message, db\<lparr>chat_history := chat_history db @ [db_message]\<rparr>))"

text \<open>The rows of one session, in table order: the \<open>filter\<close> of the query.\<close>

definition session_messages :: "database \<Rightarrow> string \<Rightarrow> ChatHistory list" where
  "session_messages db sid = filter (\<lambda>r. session_id r = sid) (chat_history db)"

text \<open>
  \<open>get_chat_history\<close>: filter by session, \<open>order_by(timestamp)\<close>, offset, limit. Rows with
  equal timestamps keep their table order (\<open>sort_key\<close> is stable).
\<close>

definition get_chat_history :: "database \<Rightarrow> string \<Rightarrow> int \<Rightarrow> int \<Rightarrow> ChatHistory list" where
  "get_chat_history db sid skip limit =
     sql_limit limit (sql_offset skip (sort_key timestamp (session_messages db sid)))"

subsection \<open>Notes\<close>

text \<open>
  The NOT NULL check of the \<open>notes\<close> table at commit, on the columns a \<open>Note\<close> object can
  leave unset, in column order; the result is the first offending column.
\<close>

definition null_column :: "Note \<Rightarrow> string option" where
  "null_column n =
     (if url n = None then Some ''notes.url''
      else if comments n = None then Some ''notes.comments''
      else if tags n = None then Some ''notes.tags''
      else None)"

text \<open>
  \<open>create_note\<close>: \<open>Note(**note.dict())\<close> sets \<open>title\<close> and \<open>content\<close> and nothing else, then
  add and commit. A failed commit raises and leaves the table as it was.
\<close>

definition create_note :: "database \<Rightarrow> nat \<Rightarrow> NoteCreate \<Rightarrow> (error + Note) \<times> database" where
  "create_note db now note =
     (let db_note =
        \<lparr>title = title note, content = content note,
         note_id = next_id (map note_id (notes_table db)), note_timestamp = now,
         url = None, comments = None, tags = None\<rparr>
      in case null_column db_note of
           Some col \<Rightarrow> (Inl (IntegrityError (''NOT NULL constraint failed: '' @ col)), db)
         | None \<Rightarrow> (Inr db_note, db\<lparr>notes_table := notes_table db @ [db_note]\<rparr>))"

text \<open>\<open>get_note\<close>: the first row with that id, or \<open>None\<close>.\<close>

definition get_note :: "database \<Rightarrow> int \<Rightarrow> Note option" where
  "get_note db i = find (\<lambda>n. note_id n = i) (notes_table db)"

text \<open>\<open>get_notes\<close>: \<open>order_by(timestamp.desc())\<close>, offset, limit.\<close>

definition get_notes :: "database \<Rightarrow> int \<Rightarrow> int \<Rightarrow> Note list" where
  "get_notes db skip limit =
     sql_limit limit (sql_offset skip (sort_key (\<lambda>n. - int (note_timestamp n)) (notes_table db)))"

text \<open>
  \<open>update_note\<close>: look the row up; if it is there, overwrite both fields of the schema
  (\<open>setattr\<close> over \<open>note.dict()\<close>), commit and return it; otherwise return \<open>None\<close>. The
  UPDATE is by primary key.
\<close>

definition update_note :: "database \<Rightarrow> int \<Rightarrow> NoteUpdate \<Rightarrow> Note option \<times> database" where
  "update_note db i note =
     (case get_note db i of
        None \<Rightarrow> (None, db)
      | Some db_note \<Rightarrow>
          (let set_attrs = (\<lambda>n. n\<lparr>title := title note, content := content note\<rparr>)
           in (Some (set_attrs db_note),
               db\<lparr>notes_table := map (\<lambda>n. if note_id n = i then set_attrs n else n) (notes_table db)\<rparr>)))"

text \<open>\<open>delete_note\<close>: look the row up; if it is there, delete it by primary key and return it.\<close>

definition delete_note :: "database \<Rightarrow> int \<Rightarrow> Note option \<times> database" where
  "delete_note db i =
     (case get_note db i of
        None \<Rightarrow> (None, db)
      | Some db_note \<Rightarrow> (Some db_note, db\<lparr>notes_table := filter (\<lambda>n. note_id n \<noteq> i) (notes_table db)\<rparr>))"

section \<open>llm_abstraction.py\<close>

text \<open>
  The client object \<open>get_llm\<close> returns: which of the three LangChain chat models, and the
  arguments it was built with (model, temperature, max_tokens, streaming, API key).
\<close>

datatype llm =
    ChatAnthropic string real int bool string
  | ChatOpenAI string real int bool string
  | ChatGoogleGenerativeAI string real int bool string

text \<open>The process environment, as \<open>os.getenv\<close> reads it.\<close>

type_synonym environ = "string \<Rightarrow> string option"

text \<open>
  \<open>get_llm\<close>. The test \<open>if not api_key\<close> holds when the variable is unset and when it is
  set to the empty string; both raise.
\<close>

definition get_llm :: "environ \<Rightarrow> string \<Rightarrow> string \<Rightarrow> real \<Rightarrow> int \<Rightarrow> bool \<Rightarrow> error + llm" where
  "get_llm env provider model_name temp max_toks streaming =
     (if provider = ''claude'' then
        (case env ''ANTHROPIC_API_KEY'' of
           None \<Rightarrow> Inl (ValueError ''ANTHROPIC_API_KEY environment variable not set.'')
         | Some api_key \<Rightarrow>
             if api_key = []
             then Inl (ValueError ''ANTHROPIC_API_KEY environment variable not set.'')
             else Inr (ChatAnthropic model_name temp max_toks streaming api_key))
      else if provider = ''openai'' then
        (case env ''OPENAI_API_KEY'' of
           None \<Rightarrow> Inl (ValueError ''OPENAI_API_KEY environment variable not set.'')
         | Some api_key \<Rightarrow>
             if api_key = []
             then Inl (ValueError ''OPENAI_API_KEY environment variable not set.'')
             else Inr (ChatOpenAI model_name temp max_toks streaming api_key))
      else if provider = ''gemini'' then
        (case env ''GOOGLE_API_KEY'' of
           None \<Rightarrow> Inl (ValueError ''GOOGLE_API_KEY environment variable not set.'')
         | Some api_key \<Rightarrow>
             if api_key = []
             then Inl (ValueError ''GOOGLE_API_KEY environment variable not set.'')
             else Inr (ChatGoogleGenerativeAI model_name temp max_toks streaming api_key))
      else Inl (ValueError (''Unsupported LLM provider: '' @ provider)))"


definition providers :: "string list" where
  "providers = [''claude'', ''openai'', ''gemini'']"


section \<open>rag_core.py\<close>

text \<open>
  \<open>get_llm_chain(llm)\<close> as main.py calls it (no context): prompt, model, string output
  parser. The chain is the model it wraps; its prompt turns the question into a system and a
  user message.
\<close>

datatype chain = Chain llm

definition get_llm_chain :: "llm \<Rightarrow> chain" where
  "get_llm_chain model = Chain model"

definition prompt :: "string \<Rightarrow> (string \<times> string) list" where
  "prompt q =
     [(''system'',
       ''You are a helpful AI assistant. Answer the user's questions clearly and concisely.''),
      (''user'', q)]"

text \<open>
  How an async iteration ends: \<open>StopAsyncIteration\<close>, or an exception of the provider call
  (with its message). The provider itself is outside the repository: it is a parameter that
  gives, for a client and the messages sent, the text fragments it streams back and how the
  stream ends. A stream is finite: the reply ends or the call fails. The caller reads the
  response to its end; a caller that disconnects in the middle is not part of the model.
\<close>

datatype stream_end = Exhausted | Raised string

type_synonym provider = "llm \<Rightarrow> (string \<times> string) list \<Rightarrow> string list \<times> stream_end"

fun astream :: "provider \<Rightarrow> chain \<Rightarrow> string \<Rightarrow> string list \<times> stream_end" where
  "astream service (Chain model) q = service model (prompt q)"

section \<open>main.py\<close>

subsection \<open>Chat-history and note routes\<close>

definition get_session_chat_history :: "database \<Rightarrow> string \<Rightarrow> ChatHistory list response" where
  "get_session_chat_history db sid = Returned (get_chat_history db sid 0 100)"

definition create_new_chat_message ::
  "database \<Rightarrow> nat \<Rightarrow> ChatMessageCreate \<Rightarrow> ChatHistory response \<times> database" where
  "create_new_chat_message db now m =
     (let (db_message, db') = create_chat_message db now m in (Returned db_message, db'))"

text \<open>\<open>response_model=NoteResponse\<close> with \<open>from_attributes\<close>: the four fields of the schema.\<close>

definition note_response :: "Note \<Rightarrow> NoteResponse" where
  "note_response n =
     \<lparr>title = title n, content = content n, resp_id = note_id n,
      resp_timestamp = note_timestamp n\<rparr>"

text \<open>\<open>read_notes\<close>: the query parameters \<open>skip\<close> and \<open>limit\<close> default to 0 and 100.\<close>

definition read_notes :: "database \<Rightarrow> int option \<Rightarrow> int option \<Rightarrow> NoteResponse list response" where
  "read_notes db skip limit =
     Returned (map note_response
       (get_notes db (case skip of None \<Rightarrow> 0 | Some k \<Rightarrow> k)
                     (case limit of None \<Rightarrow> 100 | Some l \<Rightarrow> l)))"

definition read_note :: "database \<Rightarrow> int \<Rightarrow> NoteResponse response" where
  "read_note db i =
     (case get_note db i of
        None \<Rightarrow> HTTPException 404 ''Note not found''
      | Some db_note \<Rightarrow> Returned (note_response db_note))"

definition create_new_note :: "database \<Rightarrow> nat \<Rightarrow> NoteCreate \<Rightarrow> NoteResponse response \<times> database" where
  "create_new_note db now note =
     (case create_note db now note of
        (Inl e, db') \<Rightarrow> (Unhandled e, db')
      | (Inr db_note, db') \<Rightarrow> (Returned (note_response db_note), db'))"

definition update_existing_note ::
  "database \<Rightarrow> int \<Rightarrow> NoteUpdate \<Rightarrow> NoteResponse response \<times> database" where
  "update_existing_note db i note =
     (case update_note db i note of
        (None, db') \<Rightarrow> (HTTPException 404 ''Note not found'', db')
      | (Some db_note, db') \<Rightarrow> (Returned (note_response db_note), db'))"

definition delete_existing_note :: "database \<Rightarrow> int \<Rightarrow> NoteResponse response \<times> database" where
  "delete_existing_note db i =
     (case delete_note db i of
        (None, db') \<Rightarrow> (HTTPException 404 ''Note not found'', db')
      | (Some db_note, db') \<Rightarrow> (Returned (note_response db_note), db'))"

subsection \<open>The streaming route\<close>

text \<open>
  \<open>GenerateRequest\<close>, the validated body of \<open>POST /generate_stream\<close>. Three field names are
  those of \<open>ChatMessageBase\<close> and carry the prefix \<open>req_\<close> here. \<open>temperature\<close> is a \<open>float\<close>
  the code only passes on; it is a real here.
\<close>

record GenerateRequest =
  question :: string
  req_llm_provider :: string
  req_llm_model :: string
  temperature :: real
  max_tokens :: int
  req_session_id :: string
  rag_enabled :: bool

text \<open>
  The JSON body before validation, with every field of the right JSON type; the three fields
  that have a default may be absent. Validation checks what the pydantic model declares: the
  \<open>Literal\<close> of \<open>llm_provider\<close>, and nothing about the other fields.
\<close>

record generate_body =
  body_question :: string
  body_llm_provider :: string
  body_llm_model :: string
  body_temperature :: "real option"
  body_max_tokens :: "int option"
  body_session_id :: string
  body_rag_enabled :: "bool option"

definition validate :: "generate_body \<Rightarrow> error + GenerateRequest" where
  "validate body =
     (if body_llm_provider body \<in> set [''claude'', ''openai'', ''gemini'']
      then Inr \<lparr>question = body_question body,
                req_llm_provider = body_llm_provider body,
                req_llm_model = body_llm_model body,
                temperature = (case body_temperature body of None \<Rightarrow> 0.3 | Some t \<Rightarrow> t),
                max_tokens = (case body_max_tokens body of None \<Rightarrow> 1024 | Some k \<Rightarrow> k),
                req_session_id = body_session_id body,
                rag_enabled = (case body_rag_enabled body of None \<Rightarrow> False | Some b \<Rightarrow> b)\<rparr>
      else Inl (RequestValidationError ''llm_provider''))"

text \<open>
  What one request does, in program order: a row committed to \<open>chat_history\<close>, a fragment
  yielded to the caller, an exception leaving the response generator, or an error response
  with its status and detail.
\<close>

datatype event =
    Persisted ChatHistory
  | Relayed string
  | Failed string
  | HTTPError nat string

definition user_message_data :: "GenerateRequest \<Rightarrow> ChatMessageCreate" where
  "user_message_data request =
     \<lparr>session_id = req_session_id request, role = ''user'', message = question request,
      llm_provider = req_llm_provider request, llm_model = req_llm_model request\<rparr>"

definition assistant_message_data :: "GenerateRequest \<Rightarrow> string \<Rightarrow> ChatMessageCreate" where
  "assistant_message_data request assistant_response_full =
     \<lparr>session_id = req_session_id request, role = ''assistant'',
      message = assistant_response_full,
      llm_provider = req_llm_provider request, llm_model = req_llm_model request\<rparr>"

text \<open>
  The async generator \<open>generate_response_chunks\<close>, over what is left of the provider's
  stream and the text accumulated so far: each fragment is appended to
  \<open>assistant_response_full\<close> and yielded; when the stream is exhausted the assistant row is
  committed; an exception of the stream leaves the generator at once, past the commit.
\<close>

fun generate_response_chunks ::
  "GenerateRequest \<Rightarrow> nat \<Rightarrow> string list \<Rightarrow> stream_end \<Rightarrow> string \<Rightarrow> database
     \<Rightarrow> event list \<times> database" where
  "generate_response_chunks request now [] Exhausted assistant_response_full db =
     (let (db_message, db') =
        create_chat_message db now (assistant_message_data request assistant_response_full)
      in ([Persisted db_message], db'))"
| "generate_response_chunks request now [] (Raised e) assistant_response_full db =
     ([Failed e], db)"
| "generate_response_chunks request now (chunk # rest) fin assistant_response_full db =
     (let (events, db') =
        generate_response_chunks request now rest fin (assistant_response_full @ chunk) db
      in (Relayed chunk # events, db'))"

text \<open>
  The handler \<open>generate_stream\<close>. The user row is committed first (the handler awaits the
  write). Then \<open>get_llm\<close>: a \<open>ValueError\<close> becomes \<open>HTTPException(400)\<close>, any other exception
  \<open>HTTPException(500)\<close>. Otherwise the response streams the generator. \<open>t_user\<close> and
  \<open>t_assistant\<close> are the store's clock at the two commits.
\<close>

definition generate_stream ::
  "environ \<Rightarrow> provider \<Rightarrow> nat \<Rightarrow> nat \<Rightarrow> GenerateRequest \<Rightarrow> database \<Rightarrow> event list \<times> database" where
  "generate_stream env service t_user t_assistant request db =
     (let (user_row, db1) = create_chat_message db t_user (user_message_data request) in
      case get_llm env (req_llm_provider request) (req_llm_model request)
             (temperature request) (max_tokens request) True of
        Inl (ValueError ve) \<Rightarrow> ([Persisted user_row, HTTPError 400 ve], db1)
      | Inl e \<Rightarrow> ([Persisted user_row, HTTPError 500 (''Internal server error: '' @ str e)], db1)
      | Inr model \<Rightarrow>
          (let (chunks, fin) = astream service (get_llm_chain model) (question request);
               (events, db2) = generate_response_chunks request t_assistant chunks fin [] db1
           in (Persisted user_row # events, db2)))"

text \<open>The route: request validation, then the handler.\<close>

definition post_generate_stream ::
  "environ \<Rightarrow> provider \<Rightarrow> nat \<Rightarrow> nat \<Rightarrow> generate_body \<Rightarrow> database \<Rightarrow> event list \<times> database" where
  "post_generate_stream env service t_user t_assistant body db =
     (case validate body of
        Inl e \<Rightarrow> ([HTTPError 422 (str e)], db)
      | Inr request \<Rightarrow> generate_stream env service t_user t_assistant request db)"

text \<open>The table after a prefix of a request's events: its commits, replayed.\<close>

fun db_after :: "event list \<Rightarrow> database \<Rightarrow> database" where
  "db_after [] db = db"
| "db_after (Persisted row # events) db =
     db_after events (db\<lparr>chat_history := chat_history db @ [row]\<rparr>)"
| "db_after (e # events) db = db_after events db"

section \<open>frontend/utils.py\<close>

text \<open>
  The exceptions a client function can meet inside its \<open>try\<close>: \<open>httpx.HTTPStatusError\<close>
  (from \<open>raise_for_status\<close>, with the status code and the body text), \<open>httpx.RequestError\<close>
  (the transport failed), or any other exception. The request, \<open>raise_for_status()\<close> and
  \<open>response.json()\<close> together are the exchange: it either raises one of the three or gives
  the decoded body. A client function maps the exchange to what it shows on the page and to
  what it returns (\<open>Inr\<close>) or raises (\<open>Inl\<close>).
\<close>

datatype client_exn =
    HTTPStatusError nat string
  | RequestError string
  | OtherException string

datatype ui = St_error client_exn | St_success string

definition save_chat_message_to_backend ::
  "client_exn + 'a \<Rightarrow> ui list \<times> (client_exn + unit)" where
  "save_chat_message_to_backend exchange =
     (case exchange of
        Inr body \<Rightarrow> ([], Inr ())
      | Inl (HTTPStatusError code text) \<Rightarrow>
          ([St_error (HTTPStatusError code text)], Inl (HTTPStatusError code text))
      | Inl (RequestError e) \<Rightarrow> ([St_error (RequestError e)], Inl (RequestError e))
      | Inl (OtherException e) \<Rightarrow> ([St_error (OtherException e)], Inl (OtherException e)))"

definition get_chat_history_from_backend ::
  "client_exn + 'a list \<Rightarrow> ui list \<times> (client_exn + 'a list)" where
  "get_chat_history_from_backend exchange =
     (case exchange of
        Inr body \<Rightarrow> ([], Inr body)
      | Inl (HTTPStatusError code text) \<Rightarrow> ([St_error (HTTPStatusError code text)], Inr [])
      | Inl (RequestError e) \<Rightarrow> ([St_error (RequestError e)], Inr [])
      | Inl (OtherException e) \<Rightarrow> ([St_error (OtherException e)], Inr []))"

definition get_notes_from_backend ::
  "client_exn + 'a list \<Rightarrow> ui list \<times> (client_exn + 'a list)" where
  "get_notes_from_backend exchange =
     (case exchange of
        Inr body \<Rightarrow> ([], Inr body)
      | Inl (HTTPStatusError code text) \<Rightarrow> ([St_error (HTTPStatusError code text)], Inr [])
      | Inl (RequestError e) \<Rightarrow> ([St_error (RequestError e)], Inr [])
      | Inl (OtherException e) \<Rightarrow> ([St_error (OtherException e)], Inr []))"

definition create_note_backend ::
  "client_exn + 'a \<Rightarrow> ui list \<times> (client_exn + 'a option)" where
  "create_note_backend exchange =
     (case exchange of
        Inr body \<Rightarrow> ([St_success ''Note created successfully!''], Inr (Some body))
      | Inl (HTTPStatusError code text) \<Rightarrow> ([St_error (HTTPStatusError code text)], Inr None)
      | Inl (RequestError e) \<Rightarrow> ([St_error (RequestError e)], Inr None)
      | Inl (OtherException e) \<Rightarrow> ([St_error (OtherException e)], Inr None))"

definition update_note_backend ::
  "client_exn + 'a \<Rightarrow> ui list \<times> (client_exn + 'a option)" where
  "update_note_backend exchange =
     (case exchange of
        Inr body \<Rightarrow> ([St_success ''Note updated successfully!''], Inr (Some body))
      | Inl (HTTPStatusError code text) \<Rightarrow> ([St_error (HTTPStatusError code text)], Inr None)
      | Inl (RequestError e) \<Rightarrow> ([St_error (RequestError e)], Inr None)
      | Inl (OtherException e) \<Rightarrow> ([St_error (OtherException e)], Inr None))"

definition delete_note_backend ::
  "client_exn + 'a \<Rightarrow> ui list \<times> (client_exn + bool)" where
  "delete_note_backend exchange =
     (case exchange of
        Inr body \<Rightarrow> ([St_success ''Note deleted successfully!''], Inr True)
      | Inl (HTTPStatusError code text) \<Rightarrow> ([St_error (HTTPStatusError code text)], Inr False)
      | Inl (RequestError e) \<Rightarrow> ([St_error (RequestError e)], Inr False)
      | Inl (OtherException e) \<Rightarrow> ([St_error (OtherException e)], Inr False))"

section \<open>Example inputs\<close>

text \<open>
  The scenario of the specification: only the Anthropic credential is set, the request asks
  \<open>claude\<close> the question \<open>Hi\<close> in session \<open>s1\<close>, and the provider streams \<open>Hel\<close>, \<open>lo!\<close>.
  A second provider fails after the first fragment.
\<close>

definition example_env :: environ where
  "example_env = (\<lambda>var. if var = ''ANTHROPIC_API_KEY'' then Some ''sk-test'' else None)"

definition example_provider :: provider where
  "example_provider = (\<lambda>model messages. ([''Hel'', ''lo!''], Exhausted))"

definition failing_provider :: provider where
  "failing_provider = (\<lambda>model messages. ([''Hel''], Raised ''overloaded''))"

definition example_request :: GenerateRequest where
  "example_request =
     \<lparr>question = ''Hi'', req_llm_provider = ''claude'',
      req_llm_model = ''claude-3-5-sonnet'', temperature = 0.7, max_tokens = 1024,
      req_session_id = ''s1'', rag_enabled = False\<rparr>"

text \<open>
  A body the specification would reject: empty question, a model name no provider has,
  temperature 7, max_tokens -5. The provider tag is one of the three.
\<close>

definition unchecked_body :: generate_body where
  "unchecked_body =
     \<lparr>body_question = [], body_llm_provider = ''claude'',
      body_llm_model = ''no-such-model'', body_temperature = Some 7,
      body_max_tokens = Some (- 5), body_session_id = ''s1'', body_rag_enabled = None\<rparr>"

text \<open>
  A store after the example request, with two notes; and a store with 101 messages in
  session \<open>s1\<close> and 101 notes.
\<close>

definition example_db :: database where
  "example_db =
     \<lparr>chat_history =
         [\<lparr>session_id = ''s1'', role = ''user'', message = ''Hi'',
           llm_provider = ''claude'', llm_model = ''claude-3-5-sonnet'',
           chat_id = 1, timestamp = 1\<rparr>,
          \<lparr>session_id = ''s1'', role = ''assistant'', message = ''Hello!'',
           llm_provider = ''claude'', llm_model = ''claude-3-5-sonnet'',
           chat_id = 2, timestamp = 2\<rparr>],
       notes_table =
         [\<lparr>title = ''groceries'', content = ''milk'', note_id = 1, note_timestamp = 5,
           url = Some [], comments = Some [], tags = Some []\<rparr>,
          \<lparr>title = ''reading'', content = ''papers'', note_id = 2, note_timestamp = 9,
           url = Some [], comments = Some [], tags = Some []\<rparr>]\<rparr>"

definition crowded_db :: database where
  "crowded_db =
     \<lparr>chat_history =
        map (\<lambda>i. \<lparr>session_id = ''s1'', role = ''user'', message = ''again'',
                  llm_provider = ''claude'', llm_model = ''claude-3-5-sonnet'',
                  chat_id = int i + 1, timestamp = i\<rparr>) [0..<101],
      notes_table =
        map (\<lambda>i. \<lparr>title = ''note'', content = ''text'', note_id = int i + 1,
                  note_timestamp = i, url = Some [], comments = Some [],
                  tags = Some []\<rparr>) [0..<101]\<rparr>"

section \<open>Properties\<close>

lemma next_id_fresh: "next_id ids \<notin> set ids"
proof (cases "ids = []")
  case True
  then show ?thesis by simp
next
  case False
  have "\<And>x. x \<in> set ids \<Longrightarrow> x \<le> Max (set ids)" by simp
  then have "Max (set ids) + 1 \<notin> set ids" by fastforce
  with False show ?thesis by (simp add: next_id_def)
qed


subsection \<open>The response generator\<close>

lemma chunks_exhausted:
  "generate_response_chunks request now chunks Exhausted acc db =
     (map Relayed chunks @
        [Persisted (fst (create_chat_message db now
                          (assistant_message_data request (acc @ concat chunks))))],
      snd (create_chat_message db now (assistant_message_data request (acc @ concat chunks))))"
  by (induction chunks arbitrary: acc) (simp_all add: split_def Let_def)

lemma chunks_raised:
  "generate_response_chunks request now chunks (Raised e) acc db =
     (map Relayed chunks @ [Failed e], db)"
  by (induction chunks arbitrary: acc) simp_all

lemma example_llm:
  "get_llm example_env (req_llm_provider example_request) (req_llm_model example_request)
     (temperature example_request) (max_tokens example_request) True =
   Inr (ChatAnthropic ''claude-3-5-sonnet'' 0.7 1024 True ''sk-test'')"
  by (simp add: get_llm_def example_env_def example_request_def)

text \<open>
  C1. When \<open>get_llm\<close> gives a client and the provider's stream is exhausted after the
  fragments \<open>chunks\<close>, the request does exactly this, in order: it commits the user row, relays
  the fragments in arrival order, and commits one assistant row. That row's message is the
  concatenation of the relayed fragments, and its session, provider and model are the
  request's. The table grows by these two rows and nothing else changes.
\<close>

theorem assistant_message_on_exhaustion:
  assumes "get_llm env (req_llm_provider request) (req_llm_model request)
             (temperature request) (max_tokens request) True = Inr model"
      and "service model (prompt (question request)) = (chunks, Exhausted)"
  shows "generate_stream env service t_user t_assistant request db =
     (let user_row =
            \<lparr>session_id = req_session_id request, role = ''user'', message = question request,
             llm_provider = req_llm_provider request, llm_model = req_llm_model request,
             chat_id = next_id (map chat_id (chat_history db)), timestamp = t_user\<rparr>;
          assistant_row =
            \<lparr>session_id = req_session_id request, role = ''assistant'',
             message = concat chunks,
             llm_provider = req_llm_provider request, llm_model = req_llm_model request,
             chat_id = next_id (map chat_id (chat_history db @ [user_row])),
             timestamp = t_assistant\<rparr>
      in (Persisted user_row # map Relayed chunks @ [Persisted assistant_row],
          db\<lparr>chat_history := chat_history db @ [user_row, assistant_row]\<rparr>))"
  using assms
  by (simp add: generate_stream_def get_llm_chain_def chunks_exhausted create_chat_message_def
      user_message_data_def assistant_message_data_def Let_def)

theorem assistant_message_on_exhaustion_witness:
  "example_provider (ChatAnthropic ''claude-3-5-sonnet'' 0.7 1024 True ''sk-test'')
     (prompt (question example_request)) = ([''Hel'', ''lo!''], Exhausted) \<and>
   generate_stream example_env example_provider 1 2 example_request empty_db =
     ([Persisted \<lparr>session_id = ''s1'', role = ''user'', message = ''Hi'',
                  llm_provider = ''claude'', llm_model = ''claude-3-5-sonnet'',
                  chat_id = 1, timestamp = 1\<rparr>,
       Relayed ''Hel'', Relayed ''lo!'',
       Persisted \<lparr>session_id = ''s1'', role = ''assistant'', message = ''Hello!'',
                  llm_provider = ''claude'', llm_model = ''claude-3-5-sonnet'',
                  chat_id = 2, timestamp = 2\<rparr>],
      \<lparr>chat_history =
         [\<lparr>session_id = ''s1'', role = ''user'', message = ''Hi'',
           llm_provider = ''claude'', llm_model = ''claude-3-5-sonnet'',
           chat_id = 1, timestamp = 1\<rparr>,
          \<lparr>session_id = ''s1'', role = ''assistant'', message = ''Hello!'',
           llm_provider = ''claude'', llm_model = ''claude-3-5-sonnet'',
           chat_id = 2, timestamp = 2\<rparr>],
       notes_table = []\<rparr>)"
proof -
  have stream: "example_provider (ChatAnthropic ''claude-3-5-sonnet'' 0.7 1024 True ''sk-test'')
     (prompt (question example_request)) = ([''Hel'', ''lo!''], Exhausted)"
    by (simp add: example_provider_def)
  show ?thesis
    using assistant_message_on_exhaustion
        [where service = example_provider and request = example_request and t_user = 1
           and t_assistant = 2 and db = empty_db, OF example_llm stream] stream
    by (simp add: example_request_def empty_db_def next_id_def Let_def)
qed

text \<open>
  C3. When the provider's stream raises after the fragments \<open>chunks\<close>, the caller sees the
  user row committed, then those fragments, then the exception. No assistant row is
  committed: the table is the one before the request plus the user row.
\<close>

theorem no_assistant_message_on_failure:
  assumes "get_llm env (req_llm_provider request) (req_llm_model request)
             (temperature request) (max_tokens request) True = Inr model"
      and "service model (prompt (question request)) = (chunks, Raised e)"
  shows "generate_stream env service t_user t_assistant request db =
     (let user_row =
            \<lparr>session_id = req_session_id request, role = ''user'', message = question request,
             llm_provider = req_llm_provider request, llm_model = req_llm_model request,
             chat_id = next_id (map chat_id (chat_history db)), timestamp = t_user\<rparr>
      in (Persisted user_row # map Relayed chunks @ [Failed e],
          db\<lparr>chat_history := chat_history db @ [user_row]\<rparr>))"
  using assms
  by (simp add: generate_stream_def get_llm_chain_def chunks_raised create_chat_message_def
      user_message_data_def Let_def)

theorem no_assistant_message_on_failure_witness:
  "failing_provider (ChatAnthropic ''claude-3-5-sonnet'' 0.7 1024 True ''sk-test'')
     (prompt (question example_request)) = ([''Hel''], Raised ''overloaded'') \<and>
   generate_stream example_env failing_provider 1 2 example_request empty_db =
     ([Persisted \<lparr>session_id = ''s1'', role = ''user'', message = ''Hi'',
                  llm_provider = ''claude'', llm_model = ''claude-3-5-sonnet'',
                  chat_id = 1, timestamp = 1\<rparr>,
       Relayed ''Hel'', Failed ''overloaded''],
      \<lparr>chat_history =
         [\<lparr>session_id = ''s1'', role = ''user'', message = ''Hi'',
           llm_provider = ''claude'', llm_model = ''claude-3-5-sonnet'',
           chat_id = 1, timestamp = 1\<rparr>],
       notes_table = []\<rparr>)"
proof -
  have stream: "failing_provider (ChatAnthropic ''claude-3-5-sonnet'' 0.7 1024 True ''sk-test'')
     (prompt (question example_request)) = ([''Hel''], Raised ''overloaded'')"
    by (simp add: failing_provider_def)
  show ?thesis
    using no_assistant_message_on_failure
        [where service = failing_provider and request = example_request and t_user = 1
           and t_assistant = 2 and db = empty_db, OF example_llm stream] stream
    by (simp add: example_request_def empty_db_def next_id_def Let_def)
qed

subsection \<open>Order of the user write and the fragments\<close>

lemma generate_stream_starts_with_user_row:
  "\<exists>rest. fst (generate_stream env service t_user t_assistant request db) =
     Persisted \<lparr>session_id = req_session_id request, role = ''user'',
                message = question request,
                llm_provider = req_llm_provider request, llm_model = req_llm_model request,
                chat_id = next_id (map chat_id (chat_history db)), timestamp = t_user\<rparr> # rest"
  by (simp add: generate_stream_def create_chat_message_def user_message_data_def Let_def
      split_def split: sum.splits error.splits)


lemma db_after_append: "db_after (xs @ ys) db = db_after ys (db_after xs db)"
  by (induction xs db rule: db_after.induct) simp_all

lemma db_after_relayed: "db_after (map Relayed chunks) db = db"
  by (induction chunks) simp_all

text \<open>The table a request leaves behind is the replay of the commits among its events.\<close>

lemma generate_stream_replay:
  "snd (generate_stream env service t_user t_assistant request db) =
     db_after (fst (generate_stream env service t_user t_assistant request db)) db"
proof (cases "get_llm env (req_llm_provider request) (req_llm_model request)
                (temperature request) (max_tokens request) True")
  case (Inl e)
  then show ?thesis
    by (cases e) (simp_all add: generate_stream_def create_chat_message_def Let_def)
next
  case (Inr model)
  obtain chunks fin where
    stream: "astream service (get_llm_chain model) (question request) = (chunks, fin)"
    by (cases "astream service (get_llm_chain model) (question request)")
  show ?thesis
  proof (cases fin)
    case Exhausted
    with Inr stream show ?thesis
      by (simp add: generate_stream_def chunks_exhausted db_after_append db_after_relayed
          create_chat_message_def Let_def)
  next
    case (Raised e)
    with Inr stream show ?thesis
      by (simp add: generate_stream_def chunks_raised db_after_append db_after_relayed
          create_chat_message_def Let_def)
  qed
qed




subsection \<open>The provider adapter\<close>



subsection \<open>Request validation\<close>

lemma validate_known:
  "body_llm_provider body \<in> set providers \<Longrightarrow>
   validate body =
     Inr \<lparr>question = body_question body,
          req_llm_provider = body_llm_provider body,
          req_llm_model = body_llm_model body,
          temperature = (case body_temperature body of None \<Rightarrow> 0.3 | Some t \<Rightarrow> t),
          max_tokens = (case body_max_tokens body of None \<Rightarrow> 1024 | Some k \<Rightarrow> k),
          req_session_id = body_session_id body,
          rag_enabled = (case body_rag_enabled body of None \<Rightarrow> False | Some b \<Rightarrow> b)\<rparr>"
  by (simp add: validate_def providers_def)

text \<open>
  C4, as stated, fails. The body \<open>unchecked_body\<close> has an empty question, an unknown model
  name, temperature 7 and max_tokens -5, and the route serves it: the user row is committed
  and both fragments are relayed. The same body with the provider tag \<open>mistral\<close> is refused,
  but with status 422 from request validation, not 400.
\<close>

theorem unchecked_request_is_served:
  "body_question unchecked_body = [] \<and>
   body_temperature unchecked_body = Some 7 \<and>
   body_max_tokens unchecked_body = Some (- 5) \<and>
   post_generate_stream example_env example_provider 1 2 unchecked_body empty_db =
     ([Persisted \<lparr>session_id = ''s1'', role = ''user'', message = [],
                  llm_provider = ''claude'', llm_model = ''no-such-model'',
                  chat_id = 1, timestamp = 1\<rparr>,
       Relayed ''Hel'', Relayed ''lo!'',
       Persisted \<lparr>session_id = ''s1'', role = ''assistant'', message = ''Hello!'',
                  llm_provider = ''claude'', llm_model = ''no-such-model'',
                  chat_id = 2, timestamp = 2\<rparr>],
      \<lparr>chat_history =
         [\<lparr>session_id = ''s1'', role = ''user'', message = [],
           llm_provider = ''claude'', llm_model = ''no-such-model'',
           chat_id = 1, timestamp = 1\<rparr>,
          \<lparr>session_id = ''s1'', role = ''assistant'', message = ''Hello!'',
           llm_provider = ''claude'', llm_model = ''no-such-model'',
           chat_id = 2, timestamp = 2\<rparr>],
       notes_table = []\<rparr>) \<and>
   post_generate_stream example_env example_provider 1 2
       (unchecked_body\<lparr>body_llm_provider := ''mistral''\<rparr>) empty_db =
     ([HTTPError 422 ''llm_provider''], empty_db)"
  by (simp add: unchecked_body_def post_generate_stream_def validate_def generate_stream_def
      get_llm_def example_env_def get_llm_chain_def example_provider_def
      create_chat_message_def user_message_data_def assistant_message_data_def
      empty_db_def next_id_def Let_def)

text \<open>
  C4, amended. A body whose provider tag is none of \<open>claude\<close>, \<open>openai\<close>, \<open>gemini\<close> is
  refused by request validation with status 422: nothing is committed and nothing relayed.
  Nothing else is checked: a body with a known tag passes validation with its question,
  model, temperature and max_tokens as given (0.3 and 1024 when absent), whatever they are,
  and the handler runs, committing the user row first.
\<close>

theorem only_the_provider_tag_is_validated:
  "(body_llm_provider body \<notin> set providers \<longrightarrow>
      post_generate_stream env service t_user t_assistant body db =
        ([HTTPError 422 ''llm_provider''], db)) \<and>
   (body_llm_provider body \<in> set providers \<longrightarrow>
      validate body =
        Inr \<lparr>question = body_question body,
             req_llm_provider = body_llm_provider body,
             req_llm_model = body_llm_model body,
             temperature = (case body_temperature body of None \<Rightarrow> 0.3 | Some t \<Rightarrow> t),
             max_tokens = (case body_max_tokens body of None \<Rightarrow> 1024 | Some k \<Rightarrow> k),
             req_session_id = body_session_id body,
             rag_enabled = (case body_rag_enabled body of None \<Rightarrow> False | Some b \<Rightarrow> b)\<rparr> \<and>
      (\<exists>rest. fst (post_generate_stream env service t_user t_assistant body db) =
         Persisted \<lparr>session_id = body_session_id body, role = ''user'',
                    message = body_question body,
                    llm_provider = body_llm_provider body, llm_model = body_llm_model body,
                    chat_id = next_id (map chat_id (chat_history db)),
                    timestamp = t_user\<rparr> # rest))"
proof (intro conjI impI)
  assume "body_llm_provider body \<notin> set providers"
  then show "post_generate_stream env service t_user t_assistant body db =
        ([HTTPError 422 ''llm_provider''], db)"
    by (simp add: post_generate_stream_def validate_def providers_def)
next
  assume known: "body_llm_provider body \<in> set providers"
  then show "validate body =
        Inr \<lparr>question = body_question body,
             req_llm_provider = body_llm_provider body,
             req_llm_model = body_llm_model body,
             temperature = (case body_temperature body of None \<Rightarrow> 0.3 | Some t \<Rightarrow> t),
             max_tokens = (case body_max_tokens body of None \<Rightarrow> 1024 | Some k \<Rightarrow> k),
             req_session_id = body_session_id body,
             rag_enabled = (case body_rag_enabled body of None \<Rightarrow> False | Some b \<Rightarrow> b)\<rparr>"
    by (rule validate_known)
  show "\<exists>rest. fst (post_generate_stream env service t_user t_assistant body db) =
         Persisted \<lparr>session_id = body_session_id body, role = ''user'',
                    message = body_question body,
                    llm_provider = body_llm_provider body, llm_model = body_llm_model body,
                    chat_id = next_id (map chat_id (chat_history db)),
                    timestamp = t_user\<rparr> # rest"
    using generate_stream_starts_with_user_row
      [of env service t_user t_assistant
          "\<lparr>question = body_question body,
            req_llm_provider = body_llm_provider body,
            req_llm_model = body_llm_model body,
            temperature = (case body_temperature body of None \<Rightarrow> 0.3 | Some t \<Rightarrow> t),
            max_tokens = (case body_max_tokens body of None \<Rightarrow> 1024 | Some k \<Rightarrow> k),
            req_session_id = body_session_id body,
            rag_enabled = (case body_rag_enabled body of None \<Rightarrow> False | Some b \<Rightarrow> b)\<rparr>" db]
    by (simp add: post_generate_stream_def validate_known [OF known])
qed

theorem only_the_provider_tag_is_validated_witness:
  "body_llm_provider (unchecked_body\<lparr>body_llm_provider := ''mistral''\<rparr>) \<notin> set providers \<and>
   post_generate_stream example_env example_provider 1 2
       (unchecked_body\<lparr>body_llm_provider := ''mistral''\<rparr>) empty_db =
     ([HTTPError 422 ''llm_provider''], empty_db) \<and>
   body_llm_provider unchecked_body \<in> set providers \<and>
   validate unchecked_body =
     Inr \<lparr>question = [], req_llm_provider = ''claude'', req_llm_model = ''no-such-model'',
          temperature = 7, max_tokens = - 5, req_session_id = ''s1'', rag_enabled = False\<rparr>"
  using only_the_provider_tag_is_validated
      [of "unchecked_body\<lparr>body_llm_provider := ''mistral''\<rparr>" example_env example_provider
          1 2 empty_db]
    only_the_provider_tag_is_validated [of unchecked_body example_env example_provider 1 2 empty_db]
  by (simp add: unchecked_body_def providers_def)

subsection \<open>Listings\<close>

lemma sorted_listing: "sorted (map key (sql_limit limit (sql_offset skip (sort_key key rows))))"
proof -
  have "sorted (map key (sort_key key rows))"
    by simp
  then have "sorted (drop (nat skip) (map key (sort_key key rows)))"
    by (rule sorted_wrt_drop)
  then have dropped: "sorted (map key (drop (nat skip) (sort_key key rows)))"
    by (simp add: drop_map)
  then have "sorted (take (nat limit) (map key (drop (nat skip) (sort_key key rows))))"
    by (rule sorted_wrt_take)
  then have "sorted (map key (take (nat limit) (drop (nat skip) (sort_key key rows))))"
    by (simp add: take_map)
  with dropped show ?thesis
    by (simp add: sql_limit_def sql_offset_def)
qed

lemma get_chat_history_default:
  "get_chat_history db sid 0 100 = take 100 (sort_key timestamp (session_messages db sid))"
  by (simp add: get_chat_history_def sql_limit_def sql_offset_def)

lemma crowded_session: "length (session_messages crowded_db ''s1'') = 101"
  by (simp add: session_messages_def crowded_db_def filter_map o_def)

text \<open>
  C6, as stated, fails. Session \<open>s1\<close> of \<open>crowded_db\<close> has 101 messages, and the route does
  not return the session's messages in ascending order: it returns 100 of them.
\<close>

theorem chat_history_listing_drops_messages:
  "get_session_chat_history crowded_db ''s1'' \<noteq>
     Returned (sort_key timestamp (session_messages crowded_db ''s1''))"
proof
  assume "get_session_chat_history crowded_db ''s1'' =
     Returned (sort_key timestamp (session_messages crowded_db ''s1''))"
  then have "take 100 (sort_key timestamp (session_messages crowded_db ''s1'')) =
     sort_key timestamp (session_messages crowded_db ''s1'')"
    by (simp add: get_session_chat_history_def get_chat_history_default)
  then have "length (take 100 (sort_key timestamp (session_messages crowded_db ''s1''))) =
     length (sort_key timestamp (session_messages crowded_db ''s1''))"
    by simp
  then show False
    by (simp add: crowded_session)
qed

text \<open>
  C6, amended. For every session id the route returns the first 100 of the session's
  messages in ascending timestamp order: the result is sorted, holds only rows of the
  session, and is all of them when the session has at most 100. For a session with no stored
  message it returns the empty list, not an error.
\<close>

theorem chat_history_listing:
  "get_session_chat_history db sid =
     Returned (take 100 (sort_key timestamp (session_messages db sid))) \<and>
   sorted (map timestamp (get_chat_history db sid 0 100)) \<and>
   set (get_chat_history db sid 0 100) \<subseteq> set (session_messages db sid) \<and>
   (length (session_messages db sid) \<le> 100 \<longrightarrow>
      get_chat_history db sid 0 100 = sort_key timestamp (session_messages db sid)) \<and>
   (session_messages db sid = [] \<longrightarrow> get_session_chat_history db sid = Returned [])"
proof (intro conjI impI)
  show "get_session_chat_history db sid =
     Returned (take 100 (sort_key timestamp (session_messages db sid)))"
    by (simp add: get_session_chat_history_def get_chat_history_default)
  show "sorted (map timestamp (get_chat_history db sid 0 100))"
    unfolding get_chat_history_def by (rule sorted_listing)
  show "set (get_chat_history db sid 0 100) \<subseteq> set (session_messages db sid)"
    using set_take_subset [of 100 "sort_key timestamp (session_messages db sid)"]
    by (simp add: get_chat_history_default)
  show "get_chat_history db sid 0 100 = sort_key timestamp (session_messages db sid)"
    if "length (session_messages db sid) \<le> 100"
    using that by (simp add: get_chat_history_default)
  show "get_session_chat_history db sid = Returned []" if "session_messages db sid = []"
    using that by (simp add: get_session_chat_history_def get_chat_history_default)
qed

theorem chat_history_listing_witness:
  "length (session_messages example_db ''s1'') \<le> 100 \<and>
   get_session_chat_history example_db ''s1'' = Returned (chat_history example_db) \<and>
   session_messages example_db ''s2'' = [] \<and>
   get_session_chat_history example_db ''s2'' = Returned []"
  using chat_history_listing [of example_db "''s1''"] chat_history_listing [of example_db "''s2''"]
  by (simp add: example_db_def session_messages_def)




subsection \<open>Notes\<close>

lemma create_note_fails:
  "create_note db now note =
     (Inl (IntegrityError ''NOT NULL constraint failed: notes.url''), db)"
  by (simp add: create_note_def null_column_def Let_def)

text \<open>
  C7 does not hold of the code. \<open>create_note\<close> builds the row from title and content only,
  the columns \<open>url\<close>, \<open>comments\<close> and \<open>tags\<close> of the table are NOT NULL without a default,
  and so the commit raises: \<open>POST /notes/\<close> answers 500 and stores nothing, here for the note
  \<open>groceries\<close> on the empty store.
\<close>

theorem create_note_is_rejected_by_the_store:
  "create_new_note empty_db 3 \<lparr>title = ''groceries'', content = ''milk''\<rparr> =
     (Unhandled (IntegrityError ''NOT NULL constraint failed: notes.url''), empty_db) \<and>
   status_code (fst (create_new_note empty_db 3 \<lparr>title = ''groceries'', content = ''milk''\<rparr>)) =
     500 \<and>
   read_notes empty_db None None = Returned []"
  by (simp add: create_new_note_def create_note_def null_column_def read_notes_def
      get_notes_def sql_limit_def sql_offset_def empty_db_def Let_def)

text \<open>
  The rest of the round trip holds on rows that are in the table: an update is seen by the
  next read, and after a delete the read answers 404.
\<close>

lemma find_map_same_key:
  assumes "\<And>n. note_id (f n) = note_id n"
  shows "find (\<lambda>n. note_id n = i) (map f rows) = map_option f (find (\<lambda>n. note_id n = i) rows)"
  using assms by (induction rows) simp_all

lemma update_note_then_get_note:
  assumes "get_note db i = Some n"
  shows "fst (update_note db i note) = Some (n\<lparr>title := title note, content := content note\<rparr>) \<and>
         get_note (snd (update_note db i note)) i =
           Some (n\<lparr>title := title note, content := content note\<rparr>)"
proof -
  let ?f = "\<lambda>n. if note_id n = i then n\<lparr>title := title note, content := content note\<rparr> else n"
  have "find (\<lambda>n. note_id n = i) (map ?f (notes_table db)) =
          map_option ?f (find (\<lambda>n. note_id n = i) (notes_table db))"
    by (rule find_map_same_key) simp
  moreover have "note_id n = i"
    using assms by (auto simp: get_note_def find_Some_iff)
  ultimately show ?thesis
    using assms by (simp add: update_note_def get_note_def Let_def)
qed

lemma delete_note_then_get_note:
  "get_note (snd (delete_note db i)) i = None \<and>
   read_note (snd (delete_note db i)) i = HTTPException 404 ''Note not found''"
proof -
  have gone: "find (\<lambda>n. note_id n = i) (filter (\<lambda>n. note_id n \<noteq> i) rows) = None" for rows
    by (simp add: find_None_iff)
  have "get_note (snd (delete_note db i)) i = None"
    by (cases "get_note db i") (simp_all add: delete_note_def get_note_def gone)
  then show ?thesis
    by (simp add: read_note_def)
qed

subsection \<open>Roles\<close>

text \<open>
  C9 does not hold of the code. \<open>role\<close> is an unconstrained string of the schema, and
  \<open>POST /chat_history/\<close> stores what it is given: here a row with role \<open>system\<close>.
\<close>

theorem any_role_is_stored:
  "create_new_chat_message empty_db 7
      \<lparr>session_id = ''s1'', role = ''system'', message = ''You are a pirate.'',
       llm_provider = ''claude'', llm_model = ''claude-3-5-sonnet''\<rparr> =
     (Returned \<lparr>session_id = ''s1'', role = ''system'', message = ''You are a pirate.'',
                llm_provider = ''claude'', llm_model = ''claude-3-5-sonnet'',
                chat_id = 1, timestamp = 7\<rparr>,
      \<lparr>chat_history =
         [\<lparr>session_id = ''s1'', role = ''system'', message = ''You are a pirate.'',
           llm_provider = ''claude'', llm_model = ''claude-3-5-sonnet'',
           chat_id = 1, timestamp = 7\<rparr>],
       notes_table = []\<rparr>)"
  by (simp add: create_new_chat_message_def create_chat_message_def empty_db_def next_id_def
      Let_def)

text \<open>The streaming route itself only writes the two roles.\<close>

lemma generate_stream_roles:
  assumes "Persisted row \<in> set (fst (generate_stream env service t_user t_assistant request db))"
  shows "role row = ''user'' \<or> role row = ''assistant''"
proof (cases "get_llm env (req_llm_provider request) (req_llm_model request)
                (temperature request) (max_tokens request) True")
  case (Inl e)
  with assms show ?thesis
    by (cases e)
       (auto simp: generate_stream_def create_chat_message_def user_message_data_def Let_def)
next
  case (Inr model)
  obtain chunks fin where
    stream: "astream service (get_llm_chain model) (question request) = (chunks, fin)"
    by (cases "astream service (get_llm_chain model) (question request)")
  show ?thesis
  proof (cases fin)
    case Exhausted
    with Inr stream assms show ?thesis
      by (auto simp: generate_stream_def chunks_exhausted create_chat_message_def
          user_message_data_def assistant_message_data_def Let_def)
  next
    case (Raised e)
    with Inr stream assms show ?thesis
      by (auto simp: generate_stream_def chunks_raised create_chat_message_def
          user_message_data_def Let_def)
  qed
qed

subsection \<open>The client functions\<close>

text \<open>
  C8, as stated, fails. The three note writers catch every exception and return \<open>None\<close> or
  \<open>False\<close>: a refused connection, a 404 and a 500 are not raised to the caller.
\<close>

theorem note_writes_swallow_errors:
  "snd (create_note_backend
          (Inl (RequestError ''connection refused'') :: client_exn + NoteResponse)) = Inr None \<and>
   snd (update_note_backend
          (Inl (HTTPStatusError 404 ''Note not found'') :: client_exn + NoteResponse)) = Inr None \<and>
   snd (delete_note_backend
          (Inl (HTTPStatusError 500 ''Internal Server Error'') :: client_exn + NoteResponse)) =
     Inr False"
  by (simp add: create_note_backend_def update_note_backend_def delete_note_backend_def)

text \<open>
  C8, amended. On every failure \<open>e\<close> of the exchange, the two listing functions return the
  empty list, \<open>save_chat_message_to_backend\<close> raises \<open>e\<close> to its caller, and the note writers
  do not raise: \<open>create_note_backend\<close> and \<open>update_note_backend\<close> return \<open>None\<close>,
  \<open>delete_note_backend\<close> returns \<open>False\<close>.
\<close>

theorem client_failure_results:
  "snd (get_chat_history_from_backend (Inl e)) = Inr [] \<and>
   snd (get_notes_from_backend (Inl e)) = Inr [] \<and>
   snd (save_chat_message_to_backend (Inl e)) = Inl e \<and>
   snd (create_note_backend (Inl e)) = Inr None \<and>
   snd (update_note_backend (Inl e)) = Inr None \<and>
   snd (delete_note_backend (Inl e)) = Inr False"
  by (cases e)
     (simp_all add: get_chat_history_from_backend_def get_notes_from_backend_def
        save_chat_message_to_backend_def create_note_backend_def update_note_backend_def
        delete_note_backend_def)

end
